theory Spec2Isabelle
  imports Complex_Main "HOL-Library.Sublist" "HOL-Library.List_Lexorder"
    "HOL-Library.Product_Lexorder"
begin

section \<open>Values of the Python program\<close>

text \<open>
  A Python string is a sequence of Unicode code points; a code point is a natural number.
  The substring test \<^verbatim>\<open>a in b\<close> on strings is \<^term>\<open>sublist a b\<close>. Strings compare
  lexicographically by code point, which is the order of \<^theory_text>\<open>List_Lexorder\<close>.
\<close>

type_synonym ustring = "nat list"

text \<open>
  A float is a rational, an infinity or NaN (a binary64 value is a rational; which
  rational a piece of text denotes is decided by the runtime, see below). A cell of a
  sheet read by \<^verbatim>\<open>pd.read_excel(..., header=None)\<close> is a string, an integer or a
  float; the blank cell is the float NaN.
\<close>

datatype pyfloat = Fin rat | PInf | NInf | NaN

datatype cell = Str ustring | IntC int | FloatC pyfloat

datatype error = IndexError | ValueError | KeyError

text \<open>\<^verbatim>\<open>pd.isna\<close> on a scalar cell.\<close>

definition isna :: "cell \<Rightarrow> bool" where
  "isna c = (c = FloatC NaN)"

text \<open>The comparison \<^verbatim>\<open>x <= 0\<close> and \<^verbatim>\<open>x < y\<close> on floats; both are false on NaN.\<close>

fun fle0 :: "pyfloat \<Rightarrow> bool" where
  "fle0 (Fin q) = (q \<le> 0)"
| "fle0 PInf = False"
| "fle0 NInf = True"
| "fle0 NaN = False"

fun flt :: "pyfloat \<Rightarrow> pyfloat \<Rightarrow> bool" where
  "flt NaN y = False"
| "flt x NaN = False"
| "flt PInf y = False"
| "flt x NInf = False"
| "flt NInf y = True"
| "flt x PInf = True"
| "flt (Fin p) (Fin q) = (p < q)"

text \<open>Truth value of a column label, as in \<^verbatim>\<open>if rooms_col\<close> and \<^verbatim>\<open>if not price_m2_col\<close>.\<close>

fun cell_truthy :: "cell \<Rightarrow> bool" where
  "cell_truthy (Str s) = (s \<noteq> [])"
| "cell_truthy (IntC i) = (i \<noteq> 0)"
| "cell_truthy (FloatC f) = (f \<noteq> Fin 0)"

fun truthy :: "cell option \<Rightarrow> bool" where
  "truthy None = False"
| "truthy (Some c) = cell_truthy c"

section \<open>The Python and pandas runtime\<close>

text \<open>
  The library functions the program calls are parameters of the model: the Unicode case
  mappings of \<^verbatim>\<open>str.lower\<close> and \<^verbatim>\<open>str.upper\<close> (per code point, a code point may map
  to several), the decimal digits of \<^verbatim>\<open>\d\<close> and \<^verbatim>\<open>int\<close>, the parser of \<^verbatim>\<open>float\<close>
  (\<open>None\<close> where it raises), the coercion of \<^verbatim>\<open>pd.to_numeric(..., errors='coerce')\<close> on a
  string (NaN where it fails), \<^verbatim>\<open>str\<close> of a finite float, and \<^verbatim>\<open>str\<close> of the Series
  that \<^verbatim>\<open>row.get\<close> returns for a label that occurs more than once.
\<close>

record runtime =
  lower_cp :: "nat \<Rightarrow> ustring"
  upper_cp :: "nat \<Rightarrow> ustring"
  digit_cp :: "nat \<Rightarrow> nat option"
  float_str :: "ustring \<Rightarrow> pyfloat option"
  to_numeric_str :: "ustring \<Rightarrow> pyfloat"
  repr_float :: "rat \<Rightarrow> ustring"
  series_str :: "cell \<Rightarrow> cell list \<Rightarrow> ustring"

definition py_lower :: "runtime \<Rightarrow> ustring \<Rightarrow> ustring" where
  "py_lower rt s = concat (map (lower_cp rt) s)"

definition py_upper :: "runtime \<Rightarrow> ustring \<Rightarrow> ustring" where
  "py_upper rt s = concat (map (upper_cp rt) s)"

text \<open>
  The code points for which \<^verbatim>\<open>str.isspace\<close> holds; \<^verbatim>\<open>str.strip()\<close> removes them
  from both ends and \<^verbatim>\<open>\s\<close> in a \<^verbatim>\<open>str\<close> pattern matches them.
\<close>

definition is_space :: "nat \<Rightarrow> bool" where
  "is_space c = ((9 \<le> c \<and> c \<le> 13) \<or> (28 \<le> c \<and> c \<le> 32) \<or> c = 133 \<or> c = 160
     \<or> c = 5760 \<or> (8192 \<le> c \<and> c \<le> 8202) \<or> c = 8232 \<or> c = 8233 \<or> c = 8239
     \<or> c = 8287 \<or> c = 12288)"

definition py_strip :: "ustring \<Rightarrow> ustring" where
  "py_strip s = rev (dropWhile is_space (rev (dropWhile is_space s)))"

text \<open>\<^verbatim>\<open>str(n)\<close> for an integer.\<close>

fun str_nat :: "nat \<Rightarrow> ustring" where
  "str_nat n = (if n < 10 then [48 + n] else str_nat (n div 10) @ [48 + n mod 10])"

declare str_nat.simps [simp del]

definition str_int :: "int \<Rightarrow> ustring" where
  "str_int i = (if i < 0 then 45 # str_nat (nat (- i)) else str_nat (nat i))"

text \<open>\<^verbatim>\<open>str(x)\<close> for a cell: NaN prints as \<^verbatim>\<open>nan\<close>, the infinities as \<^verbatim>\<open>inf\<close> and \<^verbatim>\<open>-inf\<close>.\<close>

fun py_str :: "runtime \<Rightarrow> cell \<Rightarrow> ustring" where
  "py_str rt (Str s) = s"
| "py_str rt (IntC i) = str_int i"
| "py_str rt (FloatC (Fin q)) = repr_float rt q"
| "py_str rt (FloatC PInf) = [105, 110, 102]"
| "py_str rt (FloatC NInf) = [45, 105, 110, 102]"
| "py_str rt (FloatC NaN) = [110, 97, 110]"

text \<open>
  \<^verbatim>\<open>s.replace(old, new)\<close>: the occurrences of \<open>old\<close> are replaced from the left, without
  overlap; an empty \<open>old\<close> matches before every code point and at the end.
\<close>

function py_replace :: "ustring \<Rightarrow> ustring \<Rightarrow> ustring \<Rightarrow> ustring" where
  "py_replace old new [] = (if old = [] then new else [])"
| "py_replace old new (c # cs) =
     (if old = [] then new @ c # py_replace old new cs
      else if prefix old (c # cs) then new @ py_replace old new (drop (length old) (c # cs))
      else c # py_replace old new cs)"
  by pat_completeness auto
termination
  by (relation "measure (\<lambda>(old, new, s). length s)") auto

section \<open>Helper functions of the program\<close>

text \<open>\<^verbatim>\<open>re.sub(r'\s+', ' ', text)\<close>: every run of whitespace becomes one space.\<close>

fun collapse_ws :: "ustring \<Rightarrow> ustring" where
  "collapse_ws [] = []"
| "collapse_ws [c] = (if is_space c then [32] else [c])"
| "collapse_ws (c # d # cs) =
     (if is_space c then (if is_space d then collapse_ws (d # cs) else 32 # collapse_ws (d # cs))
      else c # collapse_ws (d # cs))"

definition normalize_text :: "runtime \<Rightarrow> cell \<Rightarrow> ustring" where
  "normalize_text rt text =
     (if isna text then [] else collapse_ws (py_strip (py_lower rt (py_str rt text))))"

text \<open>
  The dictionary \<^verbatim>\<open>{normalize_text(col): col for col in df.columns}\<close>: a key keeps the
  position of its first insertion and the value of its last.
\<close>

fun dict_set :: "('k \<times> 'v) list \<Rightarrow> 'k \<Rightarrow> 'v \<Rightarrow> ('k \<times> 'v) list" where
  "dict_set [] k v = [(k, v)]"
| "dict_set ((k', v') # kvs) k v =
     (if k' = k then (k', v) # kvs else (k', v') # dict_set kvs k v)"

definition col_map :: "runtime \<Rightarrow> cell list \<Rightarrow> (ustring \<times> cell) list" where
  "col_map rt columns = foldl (\<lambda>d col. dict_set d (normalize_text rt col) col) [] columns"

text \<open>
  The test of one dictionary item in \<^verbatim>\<open>find_best_column\<close>: some candidate keyword occurs
  in the normalized name, and the item is not skipped by an exclusion.
\<close>

definition column_accepted :: "runtime \<Rightarrow> ustring list \<Rightarrow> ustring list \<Rightarrow> ustring \<Rightarrow> bool" where
  "column_accepted rt candidates exclude_keywords col_norm =
     ((\<exists>keyword \<in> set candidates. sublist (normalize_text rt (Str keyword)) col_norm)
      \<and> \<not> (exclude_keywords \<noteq> []
           \<and> (\<exists>excl \<in> set exclude_keywords. sublist (normalize_text rt (Str excl)) col_norm)))"

fun find_best_in :: "runtime \<Rightarrow> (ustring \<times> cell) list \<Rightarrow> ustring list list \<Rightarrow> ustring list
    \<Rightarrow> cell option" where
  "find_best_in rt cm [] exclude_keywords = None"
| "find_best_in rt cm (candidates # candidates_list) exclude_keywords =
     (case find (\<lambda>(col_norm, col_orig). column_accepted rt candidates exclude_keywords col_norm) cm of
        Some (col_norm, col_orig) \<Rightarrow> Some col_orig
      | None \<Rightarrow> find_best_in rt cm candidates_list exclude_keywords)"

definition find_best_column :: "runtime \<Rightarrow> cell list \<Rightarrow> ustring list list \<Rightarrow> ustring list
    \<Rightarrow> cell option" where
  "find_best_column rt columns candidates_list exclude_keywords =
     find_best_in rt (col_map rt columns) candidates_list exclude_keywords"

text \<open>
  The default keywords of \<^verbatim>\<open>find_header_row\<close>: \<^verbatim>\<open>ID\<close> and the Ukrainian words for
  status (U+0421 U+0442 U+0430 U+0442 U+0443 U+0441), area and price.
\<close>

definition default_header_keywords :: "ustring list" where
  "default_header_keywords =
     [[73, 68], [1057, 1090, 1072, 1090, 1091, 1089], [1055, 1083, 1086, 1097, 1072],
      [1094, 1110, 1085, 1072]]"

definition row_has_keyword :: "runtime \<Rightarrow> ustring list \<Rightarrow> cell list \<Rightarrow> bool" where
  "row_has_keyword rt keywords row =
     (\<exists>cell \<in> set (map (normalize_text rt) row). \<exists>kw \<in> set keywords. sublist kw cell)"

fun first_row :: "(cell list \<Rightarrow> bool) \<Rightarrow> nat \<Rightarrow> cell list list \<Rightarrow> nat option" where
  "first_row P i [] = None"
| "first_row P i (row # rows) = (if P row then Some i else first_row P (Suc i) rows)"

definition effective_keywords :: "runtime \<Rightarrow> ustring list option \<Rightarrow> ustring list" where
  "effective_keywords rt keywords =
     map (\<lambda>kw. normalize_text rt (Str kw))
       (case keywords of
          None \<Rightarrow> default_header_keywords
        | Some [] \<Rightarrow> default_header_keywords
        | Some kws \<Rightarrow> kws)"

definition find_header_row :: "runtime \<Rightarrow> cell list list \<Rightarrow> ustring list option \<Rightarrow> nat" where
  "find_header_row rt df keywords =
     (let keywords = effective_keywords rt keywords
      in case first_row (row_has_keyword rt keywords) 0 df of
           Some i \<Rightarrow> i
         | None \<Rightarrow> 0)"

text \<open>
  \<^verbatim>\<open>clean_currency\<close>. The removed texts are the space, the dollar sign, the
  abbreviation U+0433 U+0440 U+043D and, after the comma has become a point, the
  no-break space U+00A0.
\<close>

definition uah :: ustring where
  "uah = [1075, 1088, 1085]"

definition clean_currency :: "runtime \<Rightarrow> cell \<Rightarrow> pyfloat option" where
  "clean_currency rt val =
     (if isna val then None
      else let s = py_replace uah [] (py_replace [36] [] (py_replace [32] [] (py_str rt val)));
               s = py_replace [160] [] (py_replace [44] [46] s)
           in float_str rt s)"

text \<open>
  \<^verbatim>\<open>extract_room_count\<close>: \<^verbatim>\<open>re.search(r'(\d+)', str(val))\<close> finds the first maximal run
  of decimal digits, \<^verbatim>\<open>int\<close> reads it in base ten.
\<close>

definition is_digit :: "runtime \<Rightarrow> nat \<Rightarrow> bool" where
  "is_digit rt c = (digit_cp rt c \<noteq> None)"

definition first_digits :: "runtime \<Rightarrow> ustring \<Rightarrow> ustring" where
  "first_digits rt s = takeWhile (is_digit rt) (dropWhile (\<lambda>c. \<not> is_digit rt c) s)"

definition int_of_digits :: "runtime \<Rightarrow> ustring \<Rightarrow> int" where
  "int_of_digits rt ds =
     foldl (\<lambda>acc c. 10 * acc + (case digit_cp rt c of Some d \<Rightarrow> int d | None \<Rightarrow> 0)) 0 ds"

definition extract_room_count :: "runtime \<Rightarrow> cell \<Rightarrow> int option" where
  "extract_room_count rt val =
     (if isna val then None
      else let m = first_digits rt (py_str rt val)
           in if m \<noteq> [] then
                (let rooms = int_of_digits rt m
                 in if rooms \<in> set [1, 2, 3] then Some rooms else None)
              else None)"

section \<open>Column identification\<close>

text \<open>
  The literals of \<^verbatim>\<open>process_sheet\<close>, as code points. In the order of the definitions:
  price per metre, price per 1 m, the word for deleting, price, the letter for metre,
  sale, base, start; cost for sale, cost, cost of sale; the four room headers ("Rozmir"
  with a capital, "Rooms", "K-st kimnat", "Kimnat") and the lower-case "rozmir"; area;
  the status, state, id, number and complex keywords; the availability word "vilno".
\<close>

definition lit_price_per_metre :: ustring where
  "lit_price_per_metre = [1094, 1110, 1085, 1072, 32, 1079, 1072, 32, 1084, 1077, 1090, 1088]"

definition lit_price_per_1m :: ustring where
  "lit_price_per_1m = [1094, 1110, 1085, 1072, 32, 1079, 1072, 32, 49, 32, 1084]"

definition lit_keep :: ustring where
  "lit_keep = [1074, 1080, 1076, 1072, 1083, 1103, 1090, 1080]"

definition lit_price :: ustring where
  "lit_price = [1094, 1110, 1085, 1072]"

definition lit_m :: ustring where
  "lit_m = [1084]"

definition lit_sale :: ustring where
  "lit_sale = [1087, 1088, 1086, 1076, 1072, 1078]"

definition lit_base :: ustring where
  "lit_base = [1073, 1072, 1079, 1086, 1074]"

definition lit_start :: ustring where
  "lit_start = [1089, 1090, 1072, 1088, 1090]"

definition lit_cost_for_sale :: ustring where
  "lit_cost_for_sale = [1074, 1072, 1088, 1090, 1110, 1089, 1090, 1100, 32, 1076, 1083, 1103,
     32, 1087, 1088, 1086, 1076, 1072, 1078, 1091]"

definition lit_cost :: ustring where
  "lit_cost = [1074, 1072, 1088, 1090, 1110, 1089, 1090, 1100]"

definition lit_cost_of_sale :: ustring where
  "lit_cost_of_sale = [1074, 1072, 1088, 1090, 1110, 1089, 1090, 1100, 32, 1087, 1088, 1086,
     1076, 1072, 1078, 1091]"

definition room_headers :: "ustring list" where
  "room_headers =
     [[1056, 1086, 1079, 1084, 1110, 1088], [82, 111, 111, 109, 115],
      [1050, 45, 1089, 1090, 1100, 32, 1082, 1110, 1084, 1085, 1072, 1090],
      [1050, 1110, 1084, 1085, 1072, 1090]]"

definition lit_size :: ustring where
  "lit_size = [1088, 1086, 1079, 1084, 1110, 1088]"

definition lit_area :: ustring where
  "lit_area = [1087, 1083, 1086, 1097, 1072]"

definition status_keywords :: "ustring list list" where
  "status_keywords =
     [[[1089, 1090, 1072, 1090, 1091, 1089]],
      [[1089, 1090, 1072, 1085], [115, 116, 97, 116, 101]]]"

definition id_keywords :: "ustring list list" where
  "id_keywords = [[[105, 100], [1085, 1086, 1084, 1077, 1088]]]"

definition complex_keywords :: "ustring list list" where
  "complex_keywords =
     [[[1078, 1082], [99, 111, 109, 112, 108, 101, 120], [98, 117, 105, 108, 100, 105, 110, 103]]]"

definition lit_available :: ustring where
  "lit_available = [1074, 1110, 1083, 1100, 1085, 1086]"

record column_ids =
  price_m2_col :: "cell option"
  total_price_col :: "cell option"
  rooms_col :: "cell option"
  area_col :: "cell option"
  status_col :: "cell option"
  id_col :: "cell option"
  complex_col :: "cell option"

text \<open>
  Price per metre: the first loop stops at the first column whose normalized header is
  the exact phrase (its second test compares a stripped string with a literal that ends
  in a space); the fallback loop runs when the first left nothing.
\<close>

definition find_price_m2_col :: "runtime \<Rightarrow> cell list \<Rightarrow> cell option" where
  "find_price_m2_col rt columns =
     (let first = find (\<lambda>col. normalize_text rt col = lit_price_per_metre
                    \<or> py_strip (py_str rt col) = lit_price_per_metre @ [32]) columns
      in if truthy first then first
         else case find (\<lambda>col. let col_norm = normalize_text rt col in
                    (sublist lit_price_per_1m col_norm \<and> sublist lit_keep col_norm)
                    \<or> (sublist lit_price col_norm \<and> sublist lit_m col_norm
                        \<and> sublist lit_sale col_norm
                        \<and> \<not> sublist lit_base col_norm \<and> \<not> sublist lit_start col_norm)) columns of
                Some col \<Rightarrow> Some col
              | None \<Rightarrow> first)"

definition find_total_price_col :: "runtime \<Rightarrow> cell list \<Rightarrow> cell option" where
  "find_total_price_col rt columns =
     (let first = find (\<lambda>col. sublist lit_cost_for_sale (normalize_text rt col)) columns
      in if truthy first then first
         else case find (\<lambda>col. let col_norm = normalize_text rt col in
                    (sublist lit_cost col_norm \<and> sublist lit_keep col_norm)
                    \<or> sublist lit_cost_of_sale col_norm) columns of
                Some col \<Rightarrow> Some col
              | None \<Rightarrow> first)"

text \<open>
  Rooms: one loop over the columns; each column is tested against the exact headers and
  then against the normalized word, and the loop stops at the first column that passes
  either test.
\<close>

definition exact_room_header :: "runtime \<Rightarrow> cell \<Rightarrow> bool" where
  "exact_room_header rt col = (py_strip (py_str rt col) \<in> set room_headers)"

definition size_word_header :: "runtime \<Rightarrow> cell \<Rightarrow> bool" where
  "size_word_header rt col = (normalize_text rt col = lit_size)"

definition find_rooms_col :: "runtime \<Rightarrow> cell list \<Rightarrow> cell option" where
  "find_rooms_col rt columns =
     find (\<lambda>col. exact_room_header rt col \<or> size_word_header rt col) columns"

definition find_area_col :: "runtime \<Rightarrow> cell list \<Rightarrow> cell option" where
  "find_area_col rt columns = find (\<lambda>col. normalize_text rt col = lit_area) columns"

definition identify_columns :: "runtime \<Rightarrow> cell list \<Rightarrow> column_ids" where
  "identify_columns rt columns =
     \<lparr> price_m2_col = find_price_m2_col rt columns,
       total_price_col = find_total_price_col rt columns,
       rooms_col = find_rooms_col rt columns,
       area_col = find_area_col rt columns,
       status_col = find_best_column rt columns status_keywords [],
       id_col = find_best_column rt columns id_keywords [],
       complex_col = find_best_column rt columns complex_keywords [] \<rparr>"

section \<open>Row extraction\<close>

text \<open>
  The configuration lists at the top of the program. A rule of \<^verbatim>\<open>ID_TO_COMPLEX_RULES\<close>
  is a dictionary with the keys \<^verbatim>\<open>id_contains\<close> and \<^verbatim>\<open>complex_name\<close>, a rule of
  \<^verbatim>\<open>SHEET_TO_COMPLEX_RULES\<close> one with the keys \<^verbatim>\<open>sheet_contains\<close> and
  \<^verbatim>\<open>complex_name\<close>.
\<close>

record id_rule =
  id_contains :: ustring
  id_complex_name :: ustring

record sheet_rule =
  sheet_contains :: ustring
  sheet_complex_name :: ustring

record config =
  EXCLUDED_ID_MARKERS :: "ustring list"
  ID_TO_COMPLEX_RULES :: "id_rule list"
  SHEET_TO_COMPLEX_RULES :: "sheet_rule list"
  MIXED_SHEET_KEYWORDS :: "ustring list"

text \<open>The dictionary appended to \<^verbatim>\<open>results\<close>.\<close>

record apartment =
  GROUP :: ustring
  ROOMS :: int
  ID :: ustring
  AREA :: pyfloat
  PRICE_PER_M2 :: "pyfloat option"
  TOTAL_PRICE :: "pyfloat option"

text \<open>
  \<^verbatim>\<open>row.get(col)\<close> on a row whose index is the header row: the cell under the label, the
  Series of the cells under it when the label occurs more than once, the default when
  it does not occur.
\<close>

datatype getres = Missing | Scalar cell | Multi "cell list"

definition row_get :: "cell list \<Rightarrow> cell list \<Rightarrow> cell \<Rightarrow> getres" where
  "row_get columns row col =
     (case map snd (filter (\<lambda>(h, c). h = col) (zip columns row)) of
        [] \<Rightarrow> Missing
      | [c] \<Rightarrow> Scalar c
      | cs \<Rightarrow> Multi cs)"

text \<open>\<^verbatim>\<open>pd.to_numeric(x, errors='coerce')\<close> on a scalar: a number is returned as it is.\<close>

fun to_numeric :: "runtime \<Rightarrow> cell \<Rightarrow> pyfloat" where
  "to_numeric rt (Str s) = to_numeric_str rt s"
| "to_numeric rt (IntC i) = Fin (of_int i)"
| "to_numeric rt (FloatC f) = f"

text \<open>
  The values read from a row. Testing \<^verbatim>\<open>pd.isna\<close> of a Series in an \<^verbatim>\<open>if\<close> raises
  \<^verbatim>\<open>ValueError\<close>; \<^verbatim>\<open>str\<close> of a Series does not.
\<close>

definition status_of :: "runtime \<Rightarrow> column_ids \<Rightarrow> cell list \<Rightarrow> cell list \<Rightarrow> ustring" where
  "status_of rt ci columns row =
     (case status_col ci of
        None \<Rightarrow> []
      | Some col \<Rightarrow>
          if cell_truthy col then
            py_lower rt (case row_get columns row col of
                           Missing \<Rightarrow> []
                         | Scalar c \<Rightarrow> py_str rt c
                         | Multi cs \<Rightarrow> series_str rt col cs)
          else [])"

definition rooms_of :: "runtime \<Rightarrow> column_ids \<Rightarrow> cell list \<Rightarrow> cell list \<Rightarrow> error + int option" where
  "rooms_of rt ci columns row =
     (case rooms_col ci of
        None \<Rightarrow> Inr None
      | Some col \<Rightarrow>
          if cell_truthy col then
            (case row_get columns row col of
               Missing \<Rightarrow> Inr None
             | Scalar c \<Rightarrow> Inr (extract_room_count rt c)
             | Multi cs \<Rightarrow> Inl ValueError)
          else Inr None)"

definition area_of :: "runtime \<Rightarrow> column_ids \<Rightarrow> cell list \<Rightarrow> cell list \<Rightarrow> error + pyfloat option" where
  "area_of rt ci columns row =
     (case area_col ci of
        None \<Rightarrow> Inr None
      | Some col \<Rightarrow>
          if cell_truthy col then
            (case row_get columns row col of
               Missing \<Rightarrow> Inr (Some NaN)
             | Scalar c \<Rightarrow> Inr (Some (to_numeric rt c))
             | Multi cs \<Rightarrow> Inl ValueError)
          else Inr None)"

definition price_of :: "runtime \<Rightarrow> cell option \<Rightarrow> cell list \<Rightarrow> cell list
    \<Rightarrow> error + pyfloat option" where
  "price_of rt col_opt columns row =
     (case col_opt of
        None \<Rightarrow> Inr None
      | Some col \<Rightarrow>
          if cell_truthy col then
            (case row_get columns row col of
               Missing \<Rightarrow> Inr None
             | Scalar c \<Rightarrow> Inr (clean_currency rt c)
             | Multi cs \<Rightarrow> Inl ValueError)
          else Inr None)"

definition complex_of :: "runtime \<Rightarrow> column_ids \<Rightarrow> ustring \<Rightarrow> cell list \<Rightarrow> cell list
    \<Rightarrow> error + ustring" where
  "complex_of rt ci sheet_name columns row =
     (case complex_col ci of
        None \<Rightarrow> Inr sheet_name
      | Some col \<Rightarrow>
          if cell_truthy col then
            (case row_get columns row col of
               Missing \<Rightarrow> Inr sheet_name
             | Scalar c \<Rightarrow> Inr (if isna c then sheet_name else py_strip (py_str rt c))
             | Multi cs \<Rightarrow> Inl ValueError)
          else Inr sheet_name)"

definition apt_id_of :: "runtime \<Rightarrow> column_ids \<Rightarrow> cell list \<Rightarrow> cell list \<Rightarrow> ustring" where
  "apt_id_of rt ci columns row =
     (case id_col ci of
        None \<Rightarrow> []
      | Some col \<Rightarrow>
          if cell_truthy col then
            py_strip (case row_get columns row col of
                        Missing \<Rightarrow> []
                      | Scalar c \<Rightarrow> py_str rt c
                      | Multi cs \<Rightarrow> series_str rt col cs)
          else [])"

text \<open>The three configuration steps at the end of the loop body.\<close>

definition excluded_id :: "runtime \<Rightarrow> config \<Rightarrow> ustring \<Rightarrow> bool" where
  "excluded_id rt cfg apt_id =
     (\<exists>marker \<in> set (EXCLUDED_ID_MARKERS cfg).
        sublist (py_upper rt marker) (py_upper rt apt_id))"

definition mixed_remap :: "runtime \<Rightarrow> config \<Rightarrow> ustring \<Rightarrow> ustring \<Rightarrow> ustring \<Rightarrow> ustring" where
  "mixed_remap rt cfg sheet_name apt_id complex_name =
     (if \<exists>keyword \<in> set (MIXED_SHEET_KEYWORDS cfg).
           sublist (py_lower rt keyword) (py_lower rt sheet_name)
      then case find (\<lambda>rule. sublist (py_upper rt (id_contains rule)) (py_upper rt apt_id))
                  (ID_TO_COMPLEX_RULES cfg) of
             Some rule \<Rightarrow> id_complex_name rule
           | None \<Rightarrow> complex_name
      else complex_name)"

definition sheet_rule_matches :: "runtime \<Rightarrow> ustring \<Rightarrow> sheet_rule \<Rightarrow> bool" where
  "sheet_rule_matches rt sheet_name rule =
     sublist (py_lower rt (sheet_contains rule)) (py_lower rt sheet_name)"

definition sheet_remap :: "runtime \<Rightarrow> config \<Rightarrow> ustring \<Rightarrow> ustring \<Rightarrow> ustring" where
  "sheet_remap rt cfg sheet_name complex_name =
     (case find (sheet_rule_matches rt sheet_name) (SHEET_TO_COMPLEX_RULES cfg) of
        Some rule \<Rightarrow> sheet_complex_name rule
      | None \<Rightarrow> complex_name)"

text \<open>
  The body of the loop over the data rows: \<open>Inr None\<close> is \<^verbatim>\<open>continue\<close>, \<open>Inr (Some r)\<close>
  appends \<open>r\<close>, \<open>Inl e\<close> is an exception that leaves \<^verbatim>\<open>process_sheet\<close>.
\<close>

definition process_row :: "runtime \<Rightarrow> config \<Rightarrow> column_ids \<Rightarrow> ustring \<Rightarrow> cell list \<Rightarrow> cell list
    \<Rightarrow> error + apartment option" where
  "process_row rt cfg ci sheet_name columns row =
     (if \<not> sublist lit_available (status_of rt ci columns row) then Inr None
      else (case rooms_of rt ci columns row of
        Inl e \<Rightarrow> Inl e
      | Inr None \<Rightarrow> Inr None
      | Inr (Some rooms) \<Rightarrow>
      (if rooms \<notin> set [1, 2, 3] then Inr None
      else (case area_of rt ci columns row of
        Inl e \<Rightarrow> Inl e
      | Inr None \<Rightarrow> Inr None
      | Inr (Some area) \<Rightarrow>
      (if area = NaN \<or> fle0 area then Inr None
      else (case price_of rt (price_m2_col ci) columns row of
        Inl e \<Rightarrow> Inl e
      | Inr price_m2 \<Rightarrow>
      (case price_of rt (total_price_col ci) columns row of
        Inl e \<Rightarrow> Inl e
      | Inr total_price \<Rightarrow>
      (if price_m2 = None \<and> total_price = None then Inr None
      else (case complex_of rt ci sheet_name columns row of
        Inl e \<Rightarrow> Inl e
      | Inr complex_name \<Rightarrow>
      (let apt_id = apt_id_of rt ci columns row in
      (if excluded_id rt cfg apt_id then Inr None
      else (let complex_name = mixed_remap rt cfg sheet_name apt_id complex_name;
                complex_name = sheet_remap rt cfg sheet_name complex_name
            in Inr (Some \<lparr> GROUP = complex_name, ROOMS = rooms, ID = apt_id, AREA = area,
                           PRICE_PER_M2 = price_m2, TOTAL_PRICE = total_price \<rparr>)))))))))))))"

fun process_rows :: "runtime \<Rightarrow> config \<Rightarrow> column_ids \<Rightarrow> ustring \<Rightarrow> cell list \<Rightarrow> cell list list
    \<Rightarrow> error + apartment list" where
  "process_rows rt cfg ci sheet_name columns [] = Inr []"
| "process_rows rt cfg ci sheet_name columns (row # rows) =
     (case process_row rt cfg ci sheet_name columns row of
        Inl e \<Rightarrow> Inl e
      | Inr r \<Rightarrow>
         (case process_rows rt cfg ci sheet_name columns rows of
            Inl e \<Rightarrow> Inl e
          | Inr results \<Rightarrow> Inr (case r of None \<Rightarrow> results | Some a \<Rightarrow> a # results)))"

text \<open>
  \<^verbatim>\<open>process_sheet\<close>: \<^verbatim>\<open>df.iloc[header_idx]\<close> raises \<^verbatim>\<open>IndexError\<close> on a sheet without
  rows; the header row becomes the column labels and the rows below it are the data.
\<close>

definition process_sheet :: "runtime \<Rightarrow> config \<Rightarrow> cell list list \<Rightarrow> ustring
    \<Rightarrow> error + apartment list" where
  "process_sheet rt cfg df sheet_name =
     (let header_idx = find_header_row rt df None
      in if length df \<le> header_idx then Inl IndexError
         else let columns = df ! header_idx;
                  rows = drop (header_idx + 1) df
              in process_rows rt cfg (identify_columns rt columns) sheet_name columns rows)"

section \<open>Aggregation\<close>

text \<open>
  A row of the summary. \<^verbatim>\<open>ROOMS\<close> is \<^verbatim>\<open>str(room_count)\<close>. The other fields are
  f-strings built from a number and, for the prices, the \<^verbatim>\<open>ID\<close> of the row that
  holds it: the model keeps the number that is formatted and the identifier that is
  put in parentheses.
\<close>

record summary_row =
  sGROUP :: ustring
  sROOMS :: ustring
  MIN_AREA :: pyfloat
  MAX_AREA :: pyfloat
  MIN_PRICE_PER_M2 :: "pyfloat \<times> ustring"
  MAX_PRICE_PER_M2 :: "pyfloat \<times> ustring"
  MIN_TOTAL_PRICE :: "pyfloat \<times> ustring"

text \<open>
  \<^verbatim>\<open>df.dropna(subset=['PRICE_PER_M2', 'TOTAL_PRICE'])\<close> drops a row whose price is
  \<^verbatim>\<open>None\<close> or NaN; in the DataFrame a missing price is stored as NaN.
\<close>

fun notna_price :: "pyfloat option \<Rightarrow> bool" where
  "notna_price None = False"
| "notna_price (Some NaN) = False"
| "notna_price (Some v) = True"

definition price_complete :: "apartment \<Rightarrow> bool" where
  "price_complete r = (notna_price (PRICE_PER_M2 r) \<and> notna_price (TOTAL_PRICE r))"

fun price_val :: "pyfloat option \<Rightarrow> pyfloat" where
  "price_val None = NaN"
| "price_val (Some v) = v"

text \<open>
  \<^verbatim>\<open>group.loc[group[c].idxmin()]\<close> and \<^verbatim>\<open>idxmax\<close>: NaN is skipped and the first row
  that holds the extreme value is taken; \<open>None\<close> when every value is NaN, where the
  lookup raises.
\<close>

fun first_best :: "(pyfloat \<Rightarrow> pyfloat \<Rightarrow> bool) \<Rightarrow> (pyfloat \<times> 'a) list \<Rightarrow> (pyfloat \<times> 'a) option" where
  "first_best better [] = None"
| "first_best better ((v, a) # rest) =
     (if v = NaN then first_best better rest
      else case first_best better rest of
             None \<Rightarrow> Some (v, a)
           | Some (w, b) \<Rightarrow> if better w v then Some (w, b) else Some (v, a))"

definition idxmin :: "(apartment \<Rightarrow> pyfloat) \<Rightarrow> apartment list \<Rightarrow> (pyfloat \<times> apartment) option" where
  "idxmin col grp = first_best flt (map (\<lambda>r. (col r, r)) grp)"

definition idxmax :: "(apartment \<Rightarrow> pyfloat) \<Rightarrow> apartment list \<Rightarrow> (pyfloat \<times> apartment) option" where
  "idxmax col grp = first_best (\<lambda>w v. flt v w) (map (\<lambda>r. (col r, r)) grp)"

definition group_key :: "apartment \<Rightarrow> ustring \<times> int" where
  "group_key r = (GROUP r, ROOMS r)"

text \<open>The body of the loop over the groups.\<close>

definition summarize :: "ustring \<times> int \<Rightarrow> apartment list \<Rightarrow> error + summary_row" where
  "summarize key grp =
     (case (idxmin AREA grp, idxmax AREA grp,
            idxmin (\<lambda>r. price_val (PRICE_PER_M2 r)) grp,
            idxmax (\<lambda>r. price_val (PRICE_PER_M2 r)) grp,
            idxmin (\<lambda>r. price_val (TOTAL_PRICE r)) grp) of
        (Some (min_area, _), Some (max_area, _), Some (min_price, min_price_row),
         Some (max_price, max_price_row), Some (cheapest, cheapest_row)) \<Rightarrow>
          Inr \<lparr> sGROUP = fst key, sROOMS = str_int (snd key),
                MIN_AREA = min_area, MAX_AREA = max_area,
                MIN_PRICE_PER_M2 = (min_price, ID min_price_row),
                MAX_PRICE_PER_M2 = (max_price, ID max_price_row),
                MIN_TOTAL_PRICE = (cheapest, ID cheapest_row) \<rparr>
      | _ \<Rightarrow> Inl ValueError)"

fun collect :: "(error + 'a) list \<Rightarrow> error + 'a list" where
  "collect [] = Inr []"
| "collect (x # xs) =
     (case x of
        Inl e \<Rightarrow> Inl e
      | Inr a \<Rightarrow> (case collect xs of Inl e \<Rightarrow> Inl e | Inr as \<Rightarrow> Inr (a # as)))"

text \<open>
  \<^verbatim>\<open>generate_summary\<close>. \<^verbatim>\<open>groupby(['GROUP', 'ROOMS'])\<close> visits the distinct keys in
  sorted order. \<^verbatim>\<open>sort_values(by=['GROUP', 'ROOMS'])\<close> sorts the rows by the two string
  columns, and raises \<^verbatim>\<open>KeyError\<close> on the frame without columns that
  \<^verbatim>\<open>pd.DataFrame([])\<close> is. \<open>summary_key_text\<close> is the pair of the two columns.
\<close>

definition summary_key_text :: "summary_row \<Rightarrow> ustring \<times> ustring" where
  "summary_key_text row = (sGROUP row, sROOMS row)"

definition generate_summary :: "apartment list \<Rightarrow> error + summary_row list" where
  "generate_summary data =
     (if data = [] then Inr []
      else let df = filter price_complete data;
               keys = sort (remdups (map group_key df))
           in case collect (map (\<lambda>key. summarize key (filter (\<lambda>r. group_key r = key) df)) keys) of
                Inl e \<Rightarrow> Inl e
              | Inr results \<Rightarrow>
                  if results = [] then Inl KeyError
                  else Inr (sort_key summary_key_text results))"

section \<open>A reference runtime\<close>

text \<open>
  An instance of the runtime, used to run the model on concrete sheets: case mapping for
  Basic Latin, Latin-1 and the Cyrillic letters U+0400 to U+045F and U+0490, U+0491; the
  ASCII digits; decimal numerals with an optional sign, fraction and exponent, and the
  words \<^verbatim>\<open>inf\<close>, \<^verbatim>\<open>infinity\<close> and \<^verbatim>\<open>nan\<close>, read as the exact decimal value; a plain
  rendering of floats and of a Series.
\<close>

definition std_lower :: "nat \<Rightarrow> nat" where
  "std_lower c =
     (if 65 \<le> c \<and> c \<le> 90 then c + 32
      else if 192 \<le> c \<and> c \<le> 222 \<and> c \<noteq> 215 then c + 32
      else if 1024 \<le> c \<and> c \<le> 1039 then c + 80
      else if 1040 \<le> c \<and> c \<le> 1071 then c + 32
      else if c = 1168 then 1169
      else c)"

definition std_upper :: "nat \<Rightarrow> nat" where
  "std_upper c =
     (if 97 \<le> c \<and> c \<le> 122 then c - 32
      else if 224 \<le> c \<and> c \<le> 254 \<and> c \<noteq> 247 then c - 32
      else if 1104 \<le> c \<and> c \<le> 1119 then c - 80
      else if 1072 \<le> c \<and> c \<le> 1103 then c - 32
      else if c = 1169 then 1168
      else c)"

definition ascii_digit :: "nat \<Rightarrow> bool" where
  "ascii_digit c = (48 \<le> c \<and> c \<le> 57)"

definition digits_val :: "ustring \<Rightarrow> nat" where
  "digits_val ds = foldl (\<lambda>acc c. 10 * acc + (c - 48)) 0 ds"

definition scale10 :: "rat \<Rightarrow> int \<Rightarrow> rat" where
  "scale10 q e = (if 0 \<le> e then q * 10 ^ nat e else q / 10 ^ nat (- e))"

definition parse_exp :: "ustring \<Rightarrow> int option" where
  "parse_exp s =
     (case s of
        [] \<Rightarrow> Some 0
      | c # t \<Rightarrow>
          if c = 101 \<or> c = 69 then
            (let (sg, ds) = (case t of
                               [] \<Rightarrow> (1, [])
                             | d # u \<Rightarrow> if d = 43 then (1, u) else if d = 45 then (- 1, u) else (1, t))
             in if ds \<noteq> [] \<and> list_all ascii_digit ds then Some (sg * int (digits_val ds)) else None)
          else None)"

definition parse_unsigned :: "ustring \<Rightarrow> pyfloat option" where
  "parse_unsigned s =
     (let w = map std_lower s in
      if w = [105, 110, 102] \<or> w = [105, 110, 102, 105, 110, 105, 116, 121] then Some PInf
      else if w = [110, 97, 110] then Some NaN
      else let ip = takeWhile ascii_digit s;
               r1 = dropWhile ascii_digit s;
               (fp, r2) = (case r1 of
                             [] \<Rightarrow> ([], [])
                           | c # t \<Rightarrow> if c = 46 then (takeWhile ascii_digit t, dropWhile ascii_digit t)
                                      else ([], r1))
           in if ip = [] \<and> fp = [] then None
              else case parse_exp r2 of
                     None \<Rightarrow> None
                   | Some e \<Rightarrow> Some (Fin (scale10 (of_nat (digits_val (ip @ fp))) (e - int (length fp)))))"

fun fneg :: "pyfloat \<Rightarrow> pyfloat" where
  "fneg (Fin q) = Fin (- q)"
| "fneg PInf = NInf"
| "fneg NInf = PInf"
| "fneg NaN = NaN"

definition parse_float :: "ustring \<Rightarrow> pyfloat option" where
  "parse_float s =
     (case py_strip s of
        [] \<Rightarrow> None
      | c # u \<Rightarrow> if c = 45 then map_option fneg (parse_unsigned u)
                 else if c = 43 then parse_unsigned u
                 else parse_unsigned (c # u))"

fun frac_digits :: "nat \<Rightarrow> rat \<Rightarrow> ustring" where
  "frac_digits 0 q = []"
| "frac_digits (Suc n) q =
     (if q = 0 then []
      else let d = \<lfloor>10 * q\<rfloor> in (48 + nat d) # frac_digits n (10 * q - of_int d))"

definition std_repr_float :: "rat \<Rightarrow> ustring" where
  "std_repr_float q =
     (let a = \<bar>q\<bar>; ip = \<lfloor>a\<rfloor>; fr = a - of_int ip
      in (if q < 0 then [45] else []) @ str_nat (nat ip) @ [46]
         @ (if fr = 0 then [48] else frac_digits 17 fr))"

fun std_series_cell :: "cell \<Rightarrow> ustring" where
  "std_series_cell (Str s) = s"
| "std_series_cell (IntC i) = str_int i"
| "std_series_cell (FloatC (Fin q)) = std_repr_float q"
| "std_series_cell (FloatC PInf) = [105, 110, 102]"
| "std_series_cell (FloatC NInf) = [45, 105, 110, 102]"
| "std_series_cell (FloatC NaN) = [78, 97, 78]"

definition std :: runtime where
  "std = \<lparr> lower_cp = (\<lambda>c. [std_lower c]),
           upper_cp = (\<lambda>c. [std_upper c]),
           digit_cp = (\<lambda>c. if ascii_digit c then Some (c - 48) else None),
           float_str = parse_float,
           to_numeric_str = (\<lambda>s. case parse_float s of None \<Rightarrow> NaN | Some f \<Rightarrow> f),
           repr_float = std_repr_float,
           series_str = (\<lambda>col cs. concat (map (\<lambda>c. std_series_cell col @ [32, 32, 32, 32]
                                                    @ std_series_cell c @ [10]) cs)) \<rparr>"

section \<open>The wording of the specification\<close>


text \<open>
  The generic matcher in the words of the specification: for the first priority group
  that some column passes, the first column in header order that passes it.
\<close>

fun first_accepted :: "runtime \<Rightarrow> cell list \<Rightarrow> ustring list list \<Rightarrow> ustring list \<Rightarrow> cell option" where
  "first_accepted rt columns [] exclude_keywords = None"
| "first_accepted rt columns (candidates # candidates_list) exclude_keywords =
     (case find (\<lambda>col. column_accepted rt candidates exclude_keywords (normalize_text rt col))
             columns of
        Some col \<Rightarrow> Some col
      | None \<Rightarrow> first_accepted rt columns candidates_list exclude_keywords)"


text \<open>\<^verbatim>\<open>x > 0\<close> for a float.\<close>

fun fpos :: "pyfloat \<Rightarrow> bool" where
  "fpos (Fin q) = (0 < q)"
| "fpos PInf = True"
| "fpos NInf = False"
| "fpos NaN = False"

section \<open>Notions used in the statements\<close>

text \<open>The last column, in header order, whose header normalizes like that of \<open>col\<close>.\<close>

definition last_of_name :: "runtime \<Rightarrow> cell list \<Rightarrow> cell \<Rightarrow> cell" where
  "last_of_name rt columns col =
     last (filter (\<lambda>c. normalize_text rt c = normalize_text rt col) columns)"

text \<open>The text \<^verbatim>\<open>nan\<close>, which \<^verbatim>\<open>str\<close> gives for the blank cell, and the text "45,5".\<close>

definition nan_text :: ustring where
  "nan_text = [110, 97, 110]"

definition comma_text :: ustring where
  "comma_text = [52, 53, 44, 53]"




text \<open>The code points that can occur in a text the reference parser accepts.\<close>

definition numeric_char :: "nat \<Rightarrow> bool" where
  "numeric_char c =
     (is_space c \<or> ascii_digit c \<or> c \<in> set [43, 45, 46, 69, 101]
      \<or> std_lower c \<in> set [105, 110, 102, 116, 121, 97])"

section \<open>Sample sheets\<close>

text \<open>
  A sheet with two title rows, the header row "ID", "Status" (in Ukrainian) and one data
  row.
\<close>

definition title_grid :: "cell list list" where
  "title_grid =
     [[Str [1055, 1088, 1072, 1081, 1089], FloatC NaN],
      [Str [50, 48, 50, 52], FloatC NaN],
      [Str [73, 68], Str [1057, 1090, 1072, 1090, 1091, 1089]],
      [Str [65, 45, 49], Str [1074, 1110, 1083, 1100, 1085, 1086]]]"


text \<open>Two headers that normalize to the same string: "ID", then "id".\<close>

definition id_twice :: "cell list" where
  "id_twice = [Str [73, 68], Str [105, 100]]"

text \<open>
  A sheet named "Building Phase1 East". Its header row has the price per metre (with a
  trailing space), the cost for sale, the size, the area, the status, "ID" and the
  complex marker. Row 1 is available with rooms "1k", area 45.5 and the id "A-101"; row
  2 is sold; row 3 is available with the area text "45,5"; row 4 is available with a
  blank id and a blank complex; row 5 is available with a blank cost and the id "B-105".
\<close>

definition phase_header :: "cell list" where
  "phase_header =
     [Str [1094, 1110, 1085, 1072, 32, 1079, 1072, 32, 1084, 1077, 1090, 1088, 32],
      Str [1042, 1072, 1088, 1090, 1110, 1089, 1090, 1100, 32, 1076, 1083, 1103, 32, 1087, 1088,
           1086, 1076, 1072, 1078, 1091],
      Str [1056, 1086, 1079, 1084, 1110, 1088],
      Str [1055, 1083, 1086, 1097, 1072],
      Str [1057, 1090, 1072, 1090, 1091, 1089],
      Str [73, 68],
      Str [1046, 1050]]"

definition phase_row1 :: "cell list" where
  "phase_row1 =
     [Str [50, 53, 48, 48, 48], Str [49, 50, 48, 48, 48, 48, 48], Str [49, 1082],
      FloatC (Fin (91 / 2)), Str [1074, 1110, 1083, 1100, 1085, 1086],
      Str [65, 45, 49, 48, 49], Str [82, 105, 118, 101, 114, 115, 105, 100, 101]]"

definition phase_row2 :: "cell list" where
  "phase_row2 =
     [Str [50, 53, 48, 48, 48], Str [49, 50, 48, 48, 48, 48, 48], Str [50, 1082],
      IntC 60, Str [1087, 1088, 1086, 1076, 1072, 1085, 1086],
      Str [65, 45, 49, 48, 50], Str [82, 105, 118, 101, 114, 115, 105, 100, 101]]"

definition phase_row3 :: "cell list" where
  "phase_row3 =
     [IntC 26000, FloatC NaN, IntC 2,
      Str [52, 53, 44, 53], Str [1074, 1110, 1083, 1100, 1085, 1086],
      Str [65, 45, 49, 48, 51], FloatC NaN]"

definition phase_row4 :: "cell list" where
  "phase_row4 =
     [Str [50, 52, 48, 48, 48], Str [49, 54, 56, 48, 48, 48, 48], Str [51],
      IntC 70, Str [1042, 1110, 1083, 1100, 1085, 1086],
      FloatC NaN, FloatC NaN]"

definition phase_row5 :: "cell list" where
  "phase_row5 =
     [IntC 26000, FloatC NaN, Str [50, 1082],
      IntC 50, Str [1074, 1110, 1083, 1100, 1085, 1086],
      Str [66, 45, 49, 48, 53], Str [82, 105, 118, 101, 114, 115, 105, 100, 101]]"

definition phase_sheet :: "cell list list" where
  "phase_sheet = [phase_header, phase_row1, phase_row2, phase_row3, phase_row4, phase_row5]"

definition phase_name :: ustring where
  "phase_name = [66, 117, 105, 108, 100, 105, 110, 103, 32, 80, 104, 97, 115, 101, 49, 32, 69, 97,
     115, 116]"

text \<open>
  A configuration with the excluded marker "TEST", the mixed-sheet keyword "building",
  the id rule "A-" to "Old name" and the sheet rules "phase1" to "ComplexB" and "Phase1"
  to "ComplexA Phase 1", in this order.
\<close>

definition phase_config :: config where
  "phase_config =
     \<lparr> EXCLUDED_ID_MARKERS = [[84, 69, 83, 84]],
       ID_TO_COMPLEX_RULES =
         [\<lparr> id_contains = [65, 45], id_complex_name = [79, 108, 100, 32, 110, 97, 109, 101] \<rparr>],
       SHEET_TO_COMPLEX_RULES =
         [\<lparr> sheet_contains = [112, 104, 97, 115, 101, 49],
            sheet_complex_name = [67, 111, 109, 112, 108, 101, 120, 66] \<rparr>,
          \<lparr> sheet_contains = [80, 104, 97, 115, 101, 49],
            sheet_complex_name = [67, 111, 109, 112, 108, 101, 120, 65, 32, 80, 104, 97, 115,
              101, 32, 49] \<rparr>],
       MIXED_SHEET_KEYWORDS = [[98, 117, 105, 108, 100, 105, 110, 103]] \<rparr>"

text \<open>The records that \<^verbatim>\<open>process_sheet\<close> extracts from rows 1, 4 and 5 under \<open>phase_config\<close>.\<close>

definition phase_record1 :: apartment where
  "phase_record1 =
     \<lparr> GROUP = [67, 111, 109, 112, 108, 101, 120, 66], ROOMS = 1,
       ID = [65, 45, 49, 48, 49], AREA = Fin (91 / 2),
       PRICE_PER_M2 = Some (Fin 25000), TOTAL_PRICE = Some (Fin 1200000) \<rparr>"

definition phase_record4 :: apartment where
  "phase_record4 =
     \<lparr> GROUP = [67, 111, 109, 112, 108, 101, 120, 66], ROOMS = 3,
       ID = [110, 97, 110], AREA = Fin 70,
       PRICE_PER_M2 = Some (Fin 24000), TOTAL_PRICE = Some (Fin 1680000) \<rparr>"

definition phase_record5 :: apartment where
  "phase_record5 =
     \<lparr> GROUP = [67, 111, 109, 112, 108, 101, 120, 66], ROOMS = 2,
       ID = [66, 45, 49, 48, 53], AREA = Fin 50,
       PRICE_PER_M2 = Some (Fin 26000), TOTAL_PRICE = None \<rparr>"



text \<open>A sheet without a status column: the headers "ID" and area, and one data row.\<close>

definition no_status_sheet :: "cell list list" where
  "no_status_sheet =
     [[Str [73, 68], Str [1055, 1083, 1086, 1097, 1072]],
      [Str [65, 45, 49, 48, 49], IntC 45]]"



text \<open>
  The aggregation scenario of the specification: two records of the group "X" with one
  room, areas 40 and 50, prices per metre 20000 and 18000, totals 800000 and 900000.
\<close>

definition x_pair :: "apartment list" where
  "x_pair =
     [\<lparr> GROUP = [88], ROOMS = 1, ID = [88, 49], AREA = Fin 40,
         PRICE_PER_M2 = Some (Fin 20000), TOTAL_PRICE = Some (Fin 800000) \<rparr>,
      \<lparr> GROUP = [88], ROOMS = 1, ID = [88, 50], AREA = Fin 50,
         PRICE_PER_M2 = Some (Fin 18000), TOTAL_PRICE = Some (Fin 900000) \<rparr>]"

section \<open>Properties\<close>

lemmas literal_defs = uah_def lit_price_per_metre_def lit_price_per_1m_def lit_keep_def
  lit_price_def lit_m_def lit_sale_def lit_base_def lit_start_def lit_cost_for_sale_def
  lit_cost_def lit_cost_of_sale_def room_headers_def lit_size_def lit_area_def
  status_keywords_def id_keywords_def complex_keywords_def lit_available_def
  default_header_keywords_def

subsection \<open>Text replacement\<close>






subsection \<open>C5: clean_currency\<close>


subsection \<open>C6: find_header_row\<close>

lemma first_row_Some:
  "first_row P i rows = Some k \<Longrightarrow>
     i \<le> k \<and> k - i < length rows \<and> P (rows ! (k - i)) \<and> (\<forall>j < k - i. \<not> P (rows ! j))"
proof (induction rows arbitrary: i)
  case Nil
  then show ?case by simp
next
  case (Cons row rows)
  show ?case
  proof (cases "P row")
    case True
    with Cons.prems show ?thesis by simp
  next
    case False
    with Cons.prems have "first_row P (Suc i) rows = Some k" by simp
    from Cons.IH[OF this] have ih: "Suc i \<le> k" "k - Suc i < length rows"
      "P (rows ! (k - Suc i))" "\<forall>j < k - Suc i. \<not> P (rows ! j)" by auto
    have eq: "k - i = Suc (k - Suc i)" using ih(1) by arith
    show ?thesis using ih False unfolding eq by (auto simp: less_Suc_eq_0_disj)
  qed
qed

lemma first_row_None: "first_row P i rows = None \<Longrightarrow> \<forall>j < length rows. \<not> P (rows ! j)"
  by (induction rows arbitrary: i) (auto simp: less_Suc_eq_0_disj split: if_splits)

lemma find_header_row_least:
  "(\<forall>j < find_header_row rt df kws.
       \<not> row_has_keyword rt (effective_keywords rt kws) (df ! j))
   \<and> ((\<exists>j < length df. row_has_keyword rt (effective_keywords rt kws) (df ! j))
        \<longrightarrow> find_header_row rt df kws < length df
            \<and> row_has_keyword rt (effective_keywords rt kws)
                 (df ! find_header_row rt df kws))
   \<and> ((\<forall>j < length df. \<not> row_has_keyword rt (effective_keywords rt kws) (df ! j))
        \<longrightarrow> find_header_row rt df kws = 0)"
proof (cases "first_row (row_has_keyword rt (effective_keywords rt kws)) 0 df")
  case None
  then show ?thesis
    using first_row_None[OF None] by (auto simp: find_header_row_def)
next
  case (Some k)
  then show ?thesis
    using first_row_Some[OF Some] by (auto simp: find_header_row_def)
qed

lemma find_header_row_in_range: "df \<noteq> [] \<Longrightarrow> find_header_row rt df kws < length df"
  using find_header_row_least[of rt df kws] by (cases "\<exists>j < length df.
      row_has_keyword rt (effective_keywords rt kws) (df ! j)") auto

text \<open>
  C6. With \<open>i\<close> the result of \<^verbatim>\<open>find_header_row\<close> and the keywords normalized: no row
  above \<open>i\<close> has a cell whose normalized text contains a keyword; if some row has such
  a cell, row \<open>i\<close> is one; if none has, \<open>i\<close> is 0. On the sheet with two title rows
  and "ID", "Status" in row 2 the result is 2.
\<close>

theorem find_header_row_topmost:
  "(let i = find_header_row rt df kws; kws = effective_keywords rt kws in
     (\<forall>j < i. \<not> row_has_keyword rt kws (df ! j))
     \<and> ((\<exists>j < length df. row_has_keyword rt kws (df ! j))
          \<longrightarrow> i < length df \<and> row_has_keyword rt kws (df ! i))
     \<and> ((\<forall>j < length df. \<not> row_has_keyword rt kws (df ! j)) \<longrightarrow> i = 0))
   \<and> find_header_row std title_grid None = 2"
proof -
  have ex: "find_header_row std title_grid None = 2"
    by (simp add: find_header_row_def effective_keywords_def default_header_keywords_def
        title_grid_def row_has_keyword_def normalize_text_def isna_def py_lower_def py_strip_def
        is_space_def std_def std_lower_def sublist_Cons_right)
  show ?thesis using find_header_row_least[of rt df kws] ex by (simp add: Let_def)
qed

theorem find_header_row_topmost_witness:
  "(\<exists>j < length title_grid. row_has_keyword std (effective_keywords std None) (title_grid ! j))
   \<and> find_header_row std title_grid None < length title_grid
   \<and> row_has_keyword std (effective_keywords std None)
        (title_grid ! find_header_row std title_grid None)
   \<and> \<not> row_has_keyword std (effective_keywords std None) (title_grid ! 0)
   \<and> \<not> row_has_keyword std (effective_keywords std None) (title_grid ! 1)"
proof -
  have m: "row_has_keyword std (effective_keywords std None) (title_grid ! 2)"
    by (simp add: effective_keywords_def default_header_keywords_def
        title_grid_def row_has_keyword_def normalize_text_def isna_def py_lower_def py_strip_def
        is_space_def std_def std_lower_def sublist_Cons_right)
  then have e: "\<exists>j < length title_grid.
      row_has_keyword std (effective_keywords std None) (title_grid ! j)"
    by (intro exI[of _ 2]) (simp add: title_grid_def)
  from find_header_row_topmost[of std title_grid None] e m show ?thesis
    by (auto simp: Let_def)
qed

subsection \<open>C2: the rooms column\<close>




subsection \<open>C1: find_best_column\<close>

lemma dict_set_fresh: "k \<notin> fst ` set d \<Longrightarrow> dict_set d k v = d @ [(k, v)]"
  by (induction d) auto

lemma col_map_snoc:
  "col_map rt (columns @ [col]) = dict_set (col_map rt columns) (normalize_text rt col) col"
  by (simp add: col_map_def)

lemma col_map_distinct:
  "distinct (map (normalize_text rt) columns) \<Longrightarrow>
     col_map rt columns = map (\<lambda>col. (normalize_text rt col, col)) columns"
proof (induction columns rule: rev_induct)
  case Nil
  then show ?case by (simp add: col_map_def)
next
  case (snoc col columns)
  then have ih: "col_map rt columns = map (\<lambda>col. (normalize_text rt col, col)) columns"
    and fresh: "normalize_text rt col \<notin> normalize_text rt ` set columns"
    by auto
  have "normalize_text rt col \<notin> fst ` set (col_map rt columns)"
    using fresh by (auto simp: ih)
  then show ?case
    by (simp add: col_map_snoc dict_set_fresh ih)
qed

lemma find_best_in_pairs:
  "find_best_in rt (map (\<lambda>col. (normalize_text rt col, col)) columns) candidates_list ex
     = first_accepted rt columns candidates_list ex"
proof (induction candidates_list)
  case Nil
  then show ?case by simp
next
  case (Cons candidates candidates_list)
  have "find (\<lambda>(col_norm, col_orig). column_accepted rt candidates ex col_norm)
          (map (\<lambda>col. (normalize_text rt col, col)) columns)
        = map_option (\<lambda>col. (normalize_text rt col, col))
            (find (\<lambda>col. column_accepted rt candidates ex (normalize_text rt col)) columns)"
    by (induction columns) auto
  then show ?case using Cons by (auto split: option.splits)
qed

text \<open>
  Where no two headers normalize to the same string, \<^verbatim>\<open>find_best_column\<close> is the
  matcher of the specification.
\<close>

lemma find_best_column_distinct_names:
  "distinct (map (normalize_text rt) columns) \<Longrightarrow>
     find_best_column rt columns candidates_list exclude_keywords
       = first_accepted rt columns candidates_list exclude_keywords"
  by (simp add: find_best_column_def col_map_distinct find_best_in_pairs)

lemma find_holds: "find P xs = Some x \<Longrightarrow> P x"
  by (auto simp: find_Some_iff)

lemma find_dict_set:
  "find (\<lambda>(k, v). Q k) (dict_set d k0 v0)
     = (case find (\<lambda>(k, v). Q k) d of
          Some (k, v) \<Rightarrow> Some (k, if k = k0 then v0 else v)
        | None \<Rightarrow> if Q k0 then Some (k0, v0) else None)"
  by (induction d) (auto split: option.splits dest: find_holds)

lemma find_snoc:
  "find P (xs @ [y]) = (case find P xs of Some x \<Rightarrow> Some x | None \<Rightarrow> if P y then Some y else None)"
  by (induction xs) auto

lemma last_of_name_snoc:
  "last_of_name rt (columns @ [c]) col
     = (if normalize_text rt c = normalize_text rt col then c else last_of_name rt columns col)"
  by (simp add: last_of_name_def)

lemma find_col_map:
  "find (\<lambda>(k, v). Q k) (col_map rt columns)
     = map_option (\<lambda>col. (normalize_text rt col, last_of_name rt columns col))
         (find (\<lambda>col. Q (normalize_text rt col)) columns)"
proof (induction columns rule: rev_induct)
  case Nil
  then show ?case by (simp add: col_map_def)
next
  case (snoc c columns)
  show ?case
  proof (cases "find (\<lambda>col. Q (normalize_text rt col)) columns")
    case None
    with snoc show ?thesis
      by (simp add: col_map_snoc find_dict_set find_snoc last_of_name_snoc)
  next
    case (Some col)
    with snoc show ?thesis
      by (auto simp: col_map_snoc find_dict_set find_snoc last_of_name_snoc)
  qed
qed

text \<open>
  In general \<^verbatim>\<open>find_best_column\<close> finds the column of the specification and returns
  the last column whose header normalizes to the same string.
\<close>

lemma find_best_column_last_of_name:
  "find_best_column rt columns candidates_list exclude_keywords
     = map_option (last_of_name rt columns)
         (first_accepted rt columns candidates_list exclude_keywords)"
  unfolding find_best_column_def
proof (induction candidates_list)
  case Nil
  then show ?case by simp
next
  case (Cons candidates candidates_list)
  have "find (\<lambda>(col_norm, col_orig). column_accepted rt candidates exclude_keywords col_norm)
          (col_map rt columns)
        = map_option (\<lambda>col. (normalize_text rt col, last_of_name rt columns col))
            (find (\<lambda>col. column_accepted rt candidates exclude_keywords (normalize_text rt col))
               columns)"
    by (rule find_col_map)
  with Cons show ?case by (auto split: option.splits)
qed

text \<open>
  C1 asks for the earlier of two columns that match the same priority group. On the
  headers "ID", "id" with the id keywords both headers normalize to "id", which contains
  the keyword "id"; the first column in header order that passes is the first one, and
  \<^verbatim>\<open>find_best_column\<close> returns the second.
\<close>

theorem find_best_column_same_name_takes_later:
  "normalize_text std (id_twice ! 0) = normalize_text std (id_twice ! 1)
   \<and> column_accepted std (id_keywords ! 0) [] (normalize_text std (id_twice ! 0))
   \<and> first_accepted std id_twice id_keywords [] = Some (id_twice ! 0)
   \<and> find_best_column std id_twice id_keywords [] = Some (id_twice ! 1)
   \<and> id_twice ! 1 \<noteq> id_twice ! 0"
  by (simp add: find_best_column_def col_map_def column_accepted_def id_twice_def id_keywords_def
      normalize_text_def isna_def py_lower_def py_strip_def is_space_def std_def std_lower_def
      sublist_Cons_right)

subsection \<open>Rows and records\<close>

lemma process_rows_member:
  "process_rows rt cfg ci sheet_name columns rows = Inr results \<Longrightarrow> r \<in> set results \<Longrightarrow>
     \<exists>row \<in> set rows. process_row rt cfg ci sheet_name columns row = Inr (Some r)"
proof (induction rows arbitrary: results)
  case Nil
  then show ?case by simp
next
  case (Cons row rows)
  then show ?case
    by (auto split: sum.splits option.splits)
qed

lemma process_sheet_member:
  assumes "process_sheet rt cfg df sheet_name = Inr results" and "r \<in> set results"
  shows "\<exists>row \<in> set (drop (find_header_row rt df None + 1) df).
           process_row rt cfg (identify_columns rt (df ! find_header_row rt df None)) sheet_name
             (df ! find_header_row rt df None) row = Inr (Some r)"
  using assms
  by (auto simp: process_sheet_def Let_def split: if_splits dest!: process_rows_member)

lemma fpos_iff: "fpos a \<longleftrightarrow> a \<noteq> NaN \<and> \<not> fle0 a"
  by (cases a) auto

text \<open>What an appended record says about the row it comes from.\<close>

lemma process_row_Some:
  assumes "process_row rt cfg ci sheet_name columns row = Inr (Some r)"
  shows "sublist lit_available (status_of rt ci columns row)"
    and "rooms_of rt ci columns row = Inr (Some (ROOMS r))"
    and "ROOMS r \<in> {1, 2, 3}"
    and "area_of rt ci columns row = Inr (Some (AREA r))"
    and "fpos (AREA r)"
    and "price_of rt (price_m2_col ci) columns row = Inr (PRICE_PER_M2 r)"
    and "price_of rt (total_price_col ci) columns row = Inr (TOTAL_PRICE r)"
    and "PRICE_PER_M2 r \<noteq> None \<or> TOTAL_PRICE r \<noteq> None"
    and "ID r = apt_id_of rt ci columns row"
    and "\<not> excluded_id rt cfg (ID r)"
    and "\<exists>c. complex_of rt ci sheet_name columns row = Inr c
           \<and> GROUP r = sheet_remap rt cfg sheet_name (mixed_remap rt cfg sheet_name (ID r) c)"
  using assms
  by (auto simp: process_row_def Let_def fpos_iff split: if_splits sum.splits option.splits)

subsection \<open>The sample sheet, run on the reference runtime\<close>

lemmas norm_defs = normalize_text_def isna_def py_lower_def py_upper_def py_strip_def is_space_def
  std_def std_lower_def std_upper_def

lemmas row_defs = process_row_def status_of_def rooms_of_def area_of_def price_of_def
  complex_of_def apt_id_of_def excluded_id_def mixed_remap_def sheet_remap_def
  sheet_rule_matches_def row_get_def extract_room_count_def first_digits_def is_digit_def
  int_of_digits_def clean_currency_def

lemmas parse_defs = parse_float_def parse_unsigned_def parse_exp_def ascii_digit_def
  digits_val_def scale10_def

lemma phase_columns:
  "identify_columns std phase_header =
     \<lparr> price_m2_col = Some (phase_header ! 0), total_price_col = Some (phase_header ! 1),
       rooms_col = Some (phase_header ! 2), area_col = Some (phase_header ! 3),
       status_col = Some (phase_header ! 4), id_col = Some (phase_header ! 5),
       complex_col = Some (phase_header ! 6) \<rparr>"
  by (simp add: identify_columns_def find_price_m2_col_def find_total_price_col_def
      find_rooms_col_def exact_room_header_def size_word_header_def find_area_col_def
      find_best_column_def col_map_def column_accepted_def literal_defs phase_header_def
      norm_defs sublist_Cons_right Let_def)

lemma phase_header_row: "find_header_row std phase_sheet None = 0"
  by (simp add: find_header_row_def effective_keywords_def default_header_keywords_def
      row_has_keyword_def phase_sheet_def phase_header_def norm_defs sublist_Cons_right)

lemma phase_row1_config:
  "process_row std phase_config (identify_columns std phase_header) phase_name phase_header
     phase_row1 = Inr (Some phase_record1)"
  unfolding phase_columns
  by (simp add: row_defs parse_defs norm_defs literal_defs phase_header_def phase_row1_def
      phase_name_def phase_config_def phase_record1_def sublist_Cons_right Let_def)

lemma phase_row2_config:
  "process_row std phase_config (identify_columns std phase_header) phase_name phase_header
     phase_row2 = Inr None"
  unfolding phase_columns
  by (simp add: row_defs parse_defs norm_defs literal_defs phase_header_def phase_row2_def
      phase_name_def phase_config_def sublist_Cons_right Let_def)

lemma phase_row3_config:
  "process_row std phase_config (identify_columns std phase_header) phase_name phase_header
     phase_row3 = Inr None"
  unfolding phase_columns
  by (simp add: row_defs parse_defs norm_defs literal_defs phase_header_def phase_row3_def
      phase_name_def phase_config_def sublist_Cons_right Let_def str_int_def str_nat.simps)

lemma phase_row4_config:
  "process_row std phase_config (identify_columns std phase_header) phase_name phase_header
     phase_row4 = Inr (Some phase_record4)"
  unfolding phase_columns
  by (simp add: row_defs parse_defs norm_defs literal_defs phase_header_def phase_row4_def
      phase_name_def phase_config_def phase_record4_def sublist_Cons_right Let_def)

lemma phase_row5_config:
  "process_row std phase_config (identify_columns std phase_header) phase_name phase_header
     phase_row5 = Inr (Some phase_record5)"
  unfolding phase_columns
  by (simp add: row_defs parse_defs norm_defs literal_defs phase_header_def phase_row5_def
      phase_name_def phase_config_def phase_record5_def sublist_Cons_right Let_def str_int_def
      str_nat.simps)

lemma phase_sheet_config:
  "process_sheet std phase_config phase_sheet phase_name
     = Inr [phase_record1, phase_record4, phase_record5]"
  unfolding process_sheet_def phase_header_row Let_def
  by (simp add: phase_sheet_def phase_row1_config phase_row2_config phase_row3_config
      phase_row4_config phase_row5_config)

subsection \<open>C3: the invariant of the extracted records\<close>

text \<open>
  C3. Every record that \<^verbatim>\<open>process_sheet\<close> returns, for every runtime, configuration,
  grid and sheet name, has a room count of 1, 2 or 3, an area that is a number greater
  than 0, and a price per area or a total price that is not \<^verbatim>\<open>None\<close>.
\<close>

theorem process_sheet_record_invariant:
  assumes "process_sheet rt cfg df sheet_name = Inr results" and "r \<in> set results"
  shows "ROOMS r \<in> {1, 2, 3} \<and> fpos (AREA r)
         \<and> (PRICE_PER_M2 r \<noteq> None \<or> TOTAL_PRICE r \<noteq> None)"
proof -
  from process_sheet_member[OF assms] obtain ci columns row
    where "process_row rt cfg ci sheet_name columns row = Inr (Some r)" by blast
  from process_row_Some(3,5,8)[OF this] show ?thesis by blast
qed

theorem process_sheet_record_invariant_witness:
  "process_sheet std phase_config phase_sheet phase_name
     = Inr [phase_record1, phase_record4, phase_record5]
   \<and> phase_record5 \<in> set [phase_record1, phase_record4, phase_record5]
   \<and> ROOMS phase_record5 \<in> {1, 2, 3} \<and> fpos (AREA phase_record5)
   \<and> PRICE_PER_M2 phase_record5 \<noteq> None \<and> TOTAL_PRICE phase_record5 = None"
  using process_sheet_record_invariant[OF phase_sheet_config, of phase_record5]
    phase_sheet_config
  by (simp add: phase_record5_def)

subsection \<open>C7: the sheet-name remap\<close>



text \<open>
  Without sheet rules the three records of the sample sheet take their group from the
  mixed-sheet id rule ("Old name"), from the sheet name (blank complex cell) and from
  the complex column ("Riverside").
\<close>

lemma phase_sheet_without_sheet_rules:
  "process_sheet std (phase_config\<lparr>SHEET_TO_COMPLEX_RULES := []\<rparr>) phase_sheet phase_name
     = Inr [phase_record1\<lparr>GROUP := [79, 108, 100, 32, 110, 97, 109, 101]\<rparr>,
            phase_record4\<lparr>GROUP := phase_name\<rparr>,
            phase_record5\<lparr>GROUP := [82, 105, 118, 101, 114, 115, 105, 100, 101]\<rparr>]"
proof -
  let ?cfg = "phase_config\<lparr>SHEET_TO_COMPLEX_RULES := []\<rparr>"
  let ?ci = "identify_columns std phase_header"
  have r1: "process_row std ?cfg ?ci phase_name phase_header phase_row1
      = Inr (Some (phase_record1\<lparr>GROUP := [79, 108, 100, 32, 110, 97, 109, 101]\<rparr>))"
    unfolding phase_columns
    by (simp add: row_defs parse_defs norm_defs literal_defs phase_header_def phase_row1_def
        phase_name_def phase_config_def phase_record1_def sublist_Cons_right Let_def)
  have r2: "process_row std ?cfg ?ci phase_name phase_header phase_row2 = Inr None"
    unfolding phase_columns
    by (simp add: row_defs parse_defs norm_defs literal_defs phase_header_def phase_row2_def
        phase_name_def phase_config_def sublist_Cons_right Let_def)
  have r3: "process_row std ?cfg ?ci phase_name phase_header phase_row3 = Inr None"
    unfolding phase_columns
    by (simp add: row_defs parse_defs norm_defs literal_defs phase_header_def phase_row3_def
        phase_name_def phase_config_def sublist_Cons_right Let_def str_int_def str_nat.simps)
  have r4: "process_row std ?cfg ?ci phase_name phase_header phase_row4
      = Inr (Some (phase_record4\<lparr>GROUP := phase_name\<rparr>))"
    unfolding phase_columns
    by (simp add: row_defs parse_defs norm_defs literal_defs phase_header_def phase_row4_def
        phase_name_def phase_config_def phase_record4_def sublist_Cons_right Let_def)
  have r5: "process_row std ?cfg ?ci phase_name phase_header phase_row5
      = Inr (Some (phase_record5\<lparr>GROUP := [82, 105, 118, 101, 114, 115, 105, 100, 101]\<rparr>))"
    unfolding phase_columns
    by (simp add: row_defs parse_defs norm_defs literal_defs phase_header_def phase_row5_def
        phase_name_def phase_config_def phase_record5_def sublist_Cons_right Let_def str_int_def
        str_nat.simps)
  show ?thesis
    unfolding process_sheet_def phase_header_row Let_def
    by (simp add: phase_sheet_def r1 r2 r3 r4 r5)
qed




subsection \<open>C8: a sheet without a status column\<close>

lemma process_row_no_status:
  "status_col ci = None \<Longrightarrow> process_row rt cfg ci sheet_name columns row = Inr None"
  by (simp add: process_row_def status_of_def lit_available_def)

lemma process_rows_no_status:
  "status_col ci = None \<Longrightarrow> process_rows rt cfg ci sheet_name columns rows = Inr []"
  by (induction rows) (simp_all add: process_row_no_status)

text \<open>On a sheet without rows \<^verbatim>\<open>df.iloc[0]\<close> raises before any column is looked for.\<close>

lemma process_sheet_empty: "process_sheet rt cfg [] sheet_name = Inl IndexError"
  by (simp add: process_sheet_def)

text \<open>
  C8. If the header row of a sheet (a sheet with at least one row has one) resolves no
  status column, \<^verbatim>\<open>process_sheet\<close> returns the empty list of records, and no error.
\<close>

theorem no_status_no_records:
  assumes "df \<noteq> []"
    and "status_col (identify_columns rt (df ! find_header_row rt df None)) = None"
  shows "process_sheet rt cfg df sheet_name = Inr []"
  using find_header_row_in_range[OF assms(1), of rt None] assms(2)
  by (simp add: process_sheet_def Let_def process_rows_no_status)

theorem no_status_no_records_witness:
  "no_status_sheet \<noteq> []
   \<and> status_col (identify_columns std (no_status_sheet ! find_header_row std no_status_sheet None))
       = None
   \<and> process_sheet std phase_config no_status_sheet phase_name = Inr []"
proof -
  have h: "find_header_row std no_status_sheet None = 0"
    by (simp add: find_header_row_def effective_keywords_def default_header_keywords_def
      row_has_keyword_def no_status_sheet_def norm_defs sublist_Cons_right)
  have ne: "no_status_sheet \<noteq> []" by (simp add: no_status_sheet_def)
  have st: "status_col (identify_columns std (no_status_sheet ! find_header_row std no_status_sheet None))
       = None"
    unfolding h
    by (simp add: identify_columns_def find_best_column_def col_map_def column_accepted_def
        status_keywords_def no_status_sheet_def norm_defs sublist_Cons_right)
  from no_status_no_records[OF ne st] ne st show ?thesis by simp
qed

subsection \<open>The reference parser\<close>

lemma parse_exp_chars:
  assumes "parse_exp s = Some e"
  shows "\<forall>c \<in> set s. numeric_char c"
proof (cases s)
  case Nil
  then show ?thesis by simp
next
  case (Cons c t)
  with assms have c: "c = 101 \<or> c = 69"
    by (auto simp: parse_exp_def split: if_splits)
  show ?thesis
  proof (cases t)
    case Nil
    with Cons c show ?thesis by (auto simp: numeric_char_def)
  next
    case (Cons d u)
    with assms \<open>s = c # t\<close> c have "(d = 43 \<or> d = 45) \<and> list_all ascii_digit u
        \<or> list_all ascii_digit (d # u)"
      by (auto simp: parse_exp_def Let_def split: if_splits)
    then show ?thesis using c \<open>s = c # t\<close> Cons
      by (auto simp: numeric_char_def list_all_iff)
  qed
qed

lemma map_eq_set: "map f xs = ys \<Longrightarrow> \<forall>x \<in> set xs. f x \<in> set ys"
  by auto

lemma parse_unsigned_chars:
  assumes "parse_unsigned u = Some f"
  shows "\<forall>c \<in> set u. numeric_char c"
proof -
  let ?w = "map std_lower u"
  consider (word) "?w = [105, 110, 102] \<or> ?w = [105, 110, 102, 105, 110, 105, 116, 121]
      \<or> ?w = [110, 97, 110]"
    | (num) "?w \<noteq> [105, 110, 102]" "?w \<noteq> [105, 110, 102, 105, 110, 105, 116, 121]"
      "?w \<noteq> [110, 97, 110]"
    by blast
  then show ?thesis
  proof cases
    case word
    then have "\<forall>c \<in> set u. std_lower c \<in> set [105, 110, 102, 116, 121, 97]"
      by (auto dest!: map_eq_set)
    then show ?thesis by (simp add: numeric_char_def)
  next
    case num
    let ?ip = "takeWhile ascii_digit u" and ?r1 = "dropWhile ascii_digit u"
    have u: "u = ?ip @ ?r1" by simp
    have ip: "\<forall>c \<in> set ?ip. numeric_char c"
      by (auto simp: numeric_char_def dest: set_takeWhileD)
    have r1: "\<forall>c \<in> set ?r1. numeric_char c"
    proof (cases ?r1)
      case Nil
      show ?thesis unfolding Nil by simp
    next
      case (Cons c t)
      show ?thesis
      proof (cases "c = 46")
        case True
        let ?fp = "takeWhile ascii_digit t" and ?r2 = "dropWhile ascii_digit t"
        from assms num Cons True obtain e where "parse_exp ?r2 = Some e"
          by (auto simp: parse_unsigned_def Let_def split: if_splits option.splits)
        then have "\<forall>c \<in> set ?r2. numeric_char c" by (rule parse_exp_chars)
        moreover have "\<forall>c \<in> set ?fp. numeric_char c"
          by (auto simp: numeric_char_def dest: set_takeWhileD)
        moreover have "t = ?fp @ ?r2" by simp
        ultimately have "\<forall>c \<in> set t. numeric_char c"
          by (metis Un_iff set_append)
        then show ?thesis using Cons True by (simp add: numeric_char_def)
      next
        case False
        from assms num Cons False obtain e where "parse_exp ?r1 = Some e"
          by (auto simp: parse_unsigned_def Let_def split: if_splits option.splits)
        then show ?thesis by (rule parse_exp_chars)
      qed
    qed
    show ?thesis using u ip r1 by (metis Un_iff set_append)
  qed
qed

lemma in_set_dropWhile: "x \<in> set xs \<Longrightarrow> \<not> P x \<Longrightarrow> x \<in> set (dropWhile P xs)"
  by (induction xs) auto

lemma py_strip_keeps: "c \<in> set s \<Longrightarrow> \<not> is_space c \<Longrightarrow> c \<in> set (py_strip s)"
  by (simp add: py_strip_def in_set_dropWhile)

lemma parse_float_chars:
  assumes "parse_float s = Some f" and "c \<in> set s"
  shows "numeric_char c"
proof (cases "is_space c")
  case True
  then show ?thesis by (simp add: numeric_char_def)
next
  case False
  with assms(2) have mem: "c \<in> set (py_strip s)" by (rule py_strip_keeps)
  then obtain d u where du: "py_strip s = d # u" by (cases "py_strip s") auto
  show ?thesis
  proof (cases "d = 45 \<or> d = 43")
    case True
    with assms(1) du obtain g where "parse_unsigned u = Some g"
      by (auto simp: parse_float_def split: if_splits)
    then have "\<forall>c \<in> set u. numeric_char c" by (rule parse_unsigned_chars)
    with mem du True show ?thesis by (auto simp: numeric_char_def)
  next
    case False
    with assms(1) du have "parse_unsigned (d # u) = Some f"
      by (auto simp: parse_float_def split: if_splits)
    then have "\<forall>c \<in> set (d # u). numeric_char c" by (rule parse_unsigned_chars)
    with mem du show ?thesis by auto
  qed
qed

lemma to_numeric_std_decorated:
  assumes "44 \<in> set s \<or> 36 \<in> set s \<or> sublist uah s"
  shows "to_numeric_str std s = NaN"
proof -
  have "\<not> numeric_char 44" "\<not> numeric_char 36" "\<not> numeric_char 1075"
    by (simp_all add: numeric_char_def is_space_def ascii_digit_def std_lower_def)
  moreover have "sublist uah s \<Longrightarrow> 1075 \<in> set s"
    by (auto simp: sublist_def uah_def)
  ultimately have "\<exists>c \<in> set s. \<not> numeric_char c" using assms by blast
  then have "parse_float s = None"
    using parse_float_chars by (cases "parse_float s") blast+
  then show ?thesis by (simp add: std_def)
qed

subsection \<open>C9: the id of a row with a blank id cell\<close>

lemma first_best_single: "v \<noteq> NaN \<Longrightarrow> first_best better [(v, a)] = Some (v, a)"
  by simp

lemma price_val_notna: "notna_price p \<Longrightarrow> price_val p \<noteq> NaN"
  by (cases p rule: notna_price.cases) auto

lemma generate_summary_single:
  assumes "price_complete r" and "AREA r \<noteq> NaN"
  shows "generate_summary [r] =
     Inr [\<lparr> sGROUP = GROUP r, sROOMS = str_int (ROOMS r), MIN_AREA = AREA r, MAX_AREA = AREA r,
            MIN_PRICE_PER_M2 = (price_val (PRICE_PER_M2 r), ID r),
            MAX_PRICE_PER_M2 = (price_val (PRICE_PER_M2 r), ID r),
            MIN_TOTAL_PRICE = (price_val (TOTAL_PRICE r), ID r) \<rparr>]"
proof -
  have p: "price_val (PRICE_PER_M2 r) \<noteq> NaN" "price_val (TOTAL_PRICE r) \<noteq> NaN"
    using assms(1) by (simp_all add: price_complete_def price_val_notna)
  have "summarize (group_key r) [r] =
     Inr \<lparr> sGROUP = GROUP r, sROOMS = str_int (ROOMS r), MIN_AREA = AREA r, MAX_AREA = AREA r,
            MIN_PRICE_PER_M2 = (price_val (PRICE_PER_M2 r), ID r),
            MAX_PRICE_PER_M2 = (price_val (PRICE_PER_M2 r), ID r),
            MIN_TOTAL_PRICE = (price_val (TOTAL_PRICE r), ID r) \<rparr>"
    using p assms(2) by (simp add: summarize_def idxmin_def idxmax_def group_key_def)
  then show ?thesis
    using assms(1) by (simp add: generate_summary_def Let_def)
qed

text \<open>
  C9. When an id column is resolved and the id cell of a row is blank, the record the
  row yields has the id \<^verbatim>\<open>nan\<close>, not the empty text; it is this text that passed the
  exclusion filter, and it is the identifier that the summary of the record puts next
  to its prices.
\<close>

theorem blank_id_is_nan:
  assumes "process_row rt cfg ci sheet_name columns row = Inr (Some r)"
    and "id_col ci = Some col" and "cell_truthy col"
    and "row_get columns row col = Scalar (FloatC NaN)"
  shows "ID r = nan_text \<and> ID r \<noteq> [] \<and> \<not> excluded_id rt cfg nan_text
         \<and> (price_complete r \<longrightarrow>
              (\<exists>s. generate_summary [r] = Inr [s] \<and> snd (MIN_PRICE_PER_M2 s) = nan_text
                  \<and> snd (MAX_PRICE_PER_M2 s) = nan_text \<and> snd (MIN_TOTAL_PRICE s) = nan_text))"
proof -
  have "apt_id_of rt ci columns row = nan_text"
    using assms(2-4) by (simp add: apt_id_of_def nan_text_def py_strip_def is_space_def)
  with process_row_Some(9,10)[OF assms(1)] have id: "ID r = nan_text"
    and ex: "\<not> excluded_id rt cfg nan_text" by simp_all
  from process_row_Some(5)[OF assms(1)] have "AREA r \<noteq> NaN" by (simp add: fpos_iff)
  from generate_summary_single[OF _ this] id ex show ?thesis
    by (auto simp: nan_text_def)
qed

theorem blank_id_is_nan_witness:
  "process_row std phase_config (identify_columns std phase_header) phase_name phase_header
     phase_row4 = Inr (Some phase_record4)
   \<and> id_col (identify_columns std phase_header) = Some (phase_header ! 5)
   \<and> cell_truthy (phase_header ! 5)
   \<and> row_get phase_header phase_row4 (phase_header ! 5) = Scalar (FloatC NaN)
   \<and> ID phase_record4 = nan_text
   \<and> \<not> excluded_id std phase_config nan_text
   \<and> price_complete phase_record4
   \<and> (\<exists>s. generate_summary [phase_record4] = Inr [s] \<and> snd (MIN_PRICE_PER_M2 s) = nan_text
            \<and> snd (MAX_PRICE_PER_M2 s) = nan_text \<and> snd (MIN_TOTAL_PRICE s) = nan_text)"
proof -
  have c: "id_col (identify_columns std phase_header) = Some (phase_header ! 5)"
    by (simp add: phase_columns)
  have t: "cell_truthy (phase_header ! 5)" by (simp add: phase_header_def)
  have g: "row_get phase_header phase_row4 (phase_header ! 5) = Scalar (FloatC NaN)"
    by (simp add: row_get_def phase_header_def phase_row4_def)
  have pc: "price_complete phase_record4"
    by (simp add: price_complete_def phase_record4_def)
  from blank_id_is_nan[OF phase_row4_config c t g] phase_row4_config c t g pc
  show ?thesis by simp
qed

subsection \<open>C10: the area is not cleaned\<close>

lemma area_not_numeric_rejected:
  assumes "area_col ci = Some col" and "row_get columns row col = Scalar (Str s)"
    and "to_numeric_str rt s = NaN"
  shows "process_row rt cfg ci sheet_name columns row \<noteq> Inr (Some r)"
proof
  assume "process_row rt cfg ci sheet_name columns row = Inr (Some r)"
  from process_row_Some(4,5)[OF this] assms show False
    by (auto simp: area_of_def split: if_splits)
qed

lemma clean_currency_comma: "clean_currency std (Str comma_text) = Some (Fin (91 / 2))"
  by (simp add: clean_currency_def comma_text_def isna_def uah_def std_def parse_defs
      py_strip_def is_space_def std_lower_def Let_def)

text \<open>
  C10. A row whose area cell is a text with a comma, a dollar sign or the currency
  abbreviation yields no record: the coercion of the area gives NaN and the row is
  skipped. The text "45,5" is an example, and \<^verbatim>\<open>clean_currency\<close> reads the same text
  as 45.5. (The coercion is that of the reference runtime; for any runtime, a row whose
  area text coerces to NaN yields no record.)
\<close>

theorem area_text_not_cleaned:
  assumes "area_col ci = Some col" and "row_get columns row col = Scalar (Str s)"
    and "44 \<in> set s \<or> 36 \<in> set s \<or> sublist uah s"
  shows "to_numeric std (Str s) = NaN
         \<and> process_row std cfg ci sheet_name columns row \<noteq> Inr (Some r)
         \<and> to_numeric std (Str comma_text) = NaN
         \<and> clean_currency std (Str comma_text) = Some (Fin (91 / 2))"
proof -
  have n: "to_numeric_str std s = NaN" using assms(3) by (rule to_numeric_std_decorated)
  have "to_numeric_str std comma_text = NaN"
    by (rule to_numeric_std_decorated) (simp add: comma_text_def)
  with n area_not_numeric_rejected[OF assms(1,2) n] clean_currency_comma show ?thesis by simp
qed

theorem area_text_not_cleaned_witness:
  "area_col (identify_columns std phase_header) = Some (phase_header ! 3)
   \<and> row_get phase_header phase_row3 (phase_header ! 3) = Scalar (Str comma_text)
   \<and> 44 \<in> set comma_text
   \<and> to_numeric std (Str comma_text) = NaN
   \<and> process_row std phase_config (identify_columns std phase_header) phase_name phase_header
        phase_row3 = Inr None
   \<and> price_of std (Some (phase_header ! 3)) phase_header phase_row3 = Inr (Some (Fin (91 / 2)))"
proof -
  have c: "area_col (identify_columns std phase_header) = Some (phase_header ! 3)"
    by (simp add: phase_columns)
  have g: "row_get phase_header phase_row3 (phase_header ! 3) = Scalar (Str comma_text)"
    by (simp add: row_get_def phase_header_def phase_row3_def comma_text_def)
  have m: "44 \<in> set comma_text \<or> 36 \<in> set comma_text \<or> sublist uah comma_text"
    by (simp add: comma_text_def)
  have p: "price_of std (Some (phase_header ! 3)) phase_header phase_row3
      = Inr (Some (Fin (91 / 2)))"
    using g clean_currency_comma by (simp add: price_of_def phase_header_def)
  from area_text_not_cleaned[OF c g m] c g p phase_row3_config show ?thesis
    by (simp add: comma_text_def)
qed

subsection \<open>C4: the summary\<close>
















lemmas summary_defs = generate_summary_def price_complete_def group_key_def summarize_def
  idxmin_def idxmax_def summary_key_text_def


lemma x_pair_run:
  "generate_summary x_pair =
     Inr [\<lparr> sGROUP = [88], sROOMS = [49], MIN_AREA = Fin 40, MAX_AREA = Fin 50,
            MIN_PRICE_PER_M2 = (Fin 18000, [88, 50]), MAX_PRICE_PER_M2 = (Fin 20000, [88, 49]),
            MIN_TOTAL_PRICE = (Fin 800000, [88, 49]) \<rparr>]"
  by (simp add: summary_defs x_pair_def Let_def str_int_def str_nat.simps)


lemma generate_summary_no_complete:
  assumes "data \<noteq> []" and "\<forall>r \<in> set data. \<not> price_complete r"
  shows "generate_summary data = Inl KeyError"
proof -
  from assms(2) have "filter price_complete data = []" by (simp add: filter_empty_conv)
  with assms(1) show ?thesis by (simp add: generate_summary_def)
qed




end
